theory Spec2Isabelle
  imports Main "HOL-Library.Word" "HOL-Library.Sublist"
begin

section \<open>Arithmetic utility\<close>

text \<open>
  \<^verbatim>\<open>int add(int left, int right) { return left + right; }\<close> (src/tmp.cpp, line 10).
  The C++ \<^verbatim>\<open>int\<close> is taken as a 32-bit two's-complement machine integer: \<open>+\<close> on
  \<open>32 word\<close> wraps around and \<open>sint\<close> reads the signed value.
\<close>

type_synonym cpp_int = "32 word"

definition add :: "cpp_int \<Rightarrow> cpp_int \<Rightarrow> cpp_int" where
  "add left right = left + right"

section \<open>Build metadata\<close>

text \<open>
  The build metadata are string constants baked into the program. The executable reads
  eleven of them through the macros of \<^verbatim>\<open>buildinfo_bin.hpp\<close> (\<^verbatim>\<open>BUILD_TYPE\<close>,
  \<^verbatim>\<open>BUILD_TIMESTAMP\<close>, ...); the library reads the same eleven from \<^verbatim>\<open>buildinfo_lib.hpp\<close>
  and \<^verbatim>\<open>project::version\<close> from \<^verbatim>\<open>project/version.hpp\<close>. Neither generated header is
  part of the sources, so the values are parameters of the model: a record of the eleven
  build-info strings, extended by the version for the library.
\<close>

record buildinfo =
  build_type :: string
  build_timestamp :: string
  build_user :: string
  build_host :: string
  target_system :: string
  target_architecture :: string
  host_system :: string
  compiler_id :: string
  compiler_version :: string
  git_describe :: string
  git_commit_hash :: string

record metadata = buildinfo +
  version :: string

section \<open>Output streams\<close>

text \<open>
  A \<^verbatim>\<open>std::ostream\<close> is modelled by the characters it has received and its error state.
  \<^verbatim>\<open>operator<<\<close> on a stream whose error state is set inserts nothing; on a good stream
  it appends the characters of its argument (field width 0, the state of a fresh stream).
\<close>

record ostream =
  buf :: string
  failed :: bool

definition put :: "string \<Rightarrow> ostream \<Rightarrow> ostream" where
  "put s os = (if failed os then os else os\<lparr>buf := buf os @ s\<rparr>)"

definition put_char :: "char \<Rightarrow> ostream \<Rightarrow> ostream" where
  "put_char c os = put [c] os"

section \<open>Output streams with formatting state and a bounded buffer\<close>

text \<open>
  The stream above is a \<^verbatim>\<open>std::ostream\<close> whose field width is 0 and whose buffer takes every
  character. In general the stream also carries a field width, a fill character and an
  adjustment, and its buffer may be full (\<open>capacity\<close> is the number of characters it holds,
  \<open>None\<close> when there is no bound). The inserters of strings and characters are formatted
  output functions: on a stream whose error state is set they insert nothing and leave the
  width; otherwise they pad the text with the fill character up to the field width (after
  the text when the adjustment is left, before it otherwise), hand the characters to the
  buffer, set \<^verbatim>\<open>badbit\<close> when the buffer does not take them all, and reset the width to 0.
\<close>

record fmt_ostream = ostream +
  width :: nat
  fill :: char
  adjust_left :: bool
  capacity :: "nat option"

definition put_fmt :: "string \<Rightarrow> 'a fmt_ostream_scheme \<Rightarrow> 'a fmt_ostream_scheme" where
  "put_fmt s os =
    (if failed os then os
     else
       let pad = replicate (width os - length s) (fill os);
           seq = (if adjust_left os then s @ pad else pad @ s);
           room = (case capacity os of None \<Rightarrow> length seq | Some c \<Rightarrow> c - length (buf os))
       in os\<lparr>buf := buf os @ take room seq, failed := room < length seq, width := 0\<rparr>)"

definition put_char_fmt :: "char \<Rightarrow> 'a fmt_ostream_scheme \<Rightarrow> 'a fmt_ostream_scheme" where
  "put_char_fmt c os = put_fmt [c] os"

section \<open>Build-info reporter\<close>

text \<open>
  \<^verbatim>\<open>tmp::DumpBuildInfo\<close> (src/tmp.cpp, lines 12 to 26): ten statements, each a chain of
  insertions into the same stream. A chain \<^verbatim>\<open>ostream << a << b\<close> is
  \<open>put b (put a ostream)\<close>, written here as a left-to-right \<open>fold\<close> over the inserted items.
\<close>

definition tmp_DumpBuildInfo :: "metadata \<Rightarrow> ostream \<Rightarrow> ostream" where
  "tmp_DumpBuildInfo m ostream =
    (let ostream = put ''Build Information\<newline>'' ostream;
         ostream = put ''-----------------\<newline>'' ostream;
         ostream = fold put [''Version  : '', version m, ''\<newline>''] ostream;
         ostream = fold put [''Build    : '', build_type m, '' ('', build_timestamp m, '')\<newline>''] ostream;
         ostream = fold put [''User     : '', build_user m, '' @ '', build_host m, ''\<newline>\<newline>''] ostream;
         ostream = fold put [''Platform : '', target_system m, '' '', target_architecture m, ''\<newline>''] ostream;
         ostream = fold put [''Host     : '', host_system m, ''\<newline>\<newline>''] ostream;
         ostream = fold put [''Compiler : '', compiler_id m, '' '', compiler_version m, ''\<newline>\<newline>''] ostream;
         ostream = put_char CHR 0x0A (fold put [''Source   : '', git_describe m] ostream);
         ostream = put_char CHR 0x0A (fold put [''Commit   : '', git_commit_hash m] ostream)
     in ostream)"

text \<open>
  The executable's own \<^verbatim>\<open>DumpBuildInfo\<close> (the program's main file, lines 6 to 30): one
  statement; adjacent string literals are one literal.
\<close>

definition bin_DumpBuildInfo :: "'a buildinfo_scheme \<Rightarrow> ostream \<Rightarrow> ostream" where
  "bin_DumpBuildInfo m ostream =
    put_char CHR 0x0A
      (fold put [''Commit   : '', git_commit_hash m]
        (put_char CHR 0x0A
          (fold put
            [''Build Information\<newline>-----------------\<newline>Build    : '',
             build_type m, '' ('', build_timestamp m,
             '')\<newline>User     : '',
             build_user m, '' @ '', build_host m,
             ''\<newline>\<newline>Platform : '',
             target_system m, '' '', target_architecture m,
             ''\<newline>Host     : '',
             host_system m,
             ''\<newline>\<newline>Compiler : '',
             compiler_id m, '' '', compiler_version m,
             ''\<newline>\<newline>Source   : '',
             git_describe m]
            ostream)))"

text \<open>
  \<^verbatim>\<open>main\<close> (the program's main file, lines 32 to 38) calls both reporters with their
  default argument \<^verbatim>\<open>std::cout\<close> and returns 0. The library was compiled against
  \<^verbatim>\<open>buildinfo_lib.hpp\<close> and the executable against \<^verbatim>\<open>buildinfo_bin.hpp\<close>, so the two calls
  read two records. The arguments \<^verbatim>\<open>argc\<close> and \<^verbatim>\<open>argv\<close> are not used.
\<close>

definition main :: "metadata \<Rightarrow> 'a buildinfo_scheme \<Rightarrow> string list \<Rightarrow> ostream \<Rightarrow> cpp_int \<times> ostream" where
  "main lib_info bin_info argv cout =
    (let cout = tmp_DumpBuildInfo lib_info cout;
         cout = bin_DumpBuildInfo bin_info cout
     in (0, cout))"

text \<open>
  The same two functions on a stream with formatting state and a bounded buffer:
  \<^verbatim>\<open>tmp::DumpBuildInfo\<close> (src/tmp.cpp, lines 12 to 26) and the executable's own
  \<^verbatim>\<open>DumpBuildInfo\<close> (the program's main file, lines 6 to 30), statement by statement.
\<close>

definition tmp_DumpBuildInfo_fmt :: "metadata \<Rightarrow> 'a fmt_ostream_scheme \<Rightarrow> 'a fmt_ostream_scheme" where
  "tmp_DumpBuildInfo_fmt m ostream =
    (let ostream = put_fmt ''Build Information\<newline>'' ostream;
         ostream = put_fmt ''-----------------\<newline>'' ostream;
         ostream = fold put_fmt [''Version  : '', version m, ''\<newline>''] ostream;
         ostream = fold put_fmt [''Build    : '', build_type m, '' ('', build_timestamp m, '')\<newline>''] ostream;
         ostream = fold put_fmt [''User     : '', build_user m, '' @ '', build_host m, ''\<newline>\<newline>''] ostream;
         ostream = fold put_fmt [''Platform : '', target_system m, '' '', target_architecture m, ''\<newline>''] ostream;
         ostream = fold put_fmt [''Host     : '', host_system m, ''\<newline>\<newline>''] ostream;
         ostream = fold put_fmt [''Compiler : '', compiler_id m, '' '', compiler_version m, ''\<newline>\<newline>''] ostream;
         ostream = put_char_fmt CHR 0x0A (fold put_fmt [''Source   : '', git_describe m] ostream);
         ostream = put_char_fmt CHR 0x0A (fold put_fmt [''Commit   : '', git_commit_hash m] ostream)
     in ostream)"

definition bin_DumpBuildInfo_fmt :: "'a buildinfo_scheme \<Rightarrow> 'b fmt_ostream_scheme \<Rightarrow> 'b fmt_ostream_scheme" where
  "bin_DumpBuildInfo_fmt m ostream =
    put_char_fmt CHR 0x0A
      (fold put_fmt [''Commit   : '', git_commit_hash m]
        (put_char_fmt CHR 0x0A
          (fold put_fmt
            [''Build Information\<newline>-----------------\<newline>Build    : '',
             build_type m, '' ('', build_timestamp m,
             '')\<newline>User     : '',
             build_user m, '' @ '', build_host m,
             ''\<newline>\<newline>Platform : '',
             target_system m, '' '', target_architecture m,
             ''\<newline>Host     : '',
             host_system m,
             ''\<newline>\<newline>Compiler : '',
             compiler_id m, '' '', compiler_version m,
             ''\<newline>\<newline>Source   : '',
             git_describe m]
            ostream)))"

text \<open>
  The items the two reporters insert, in the order of the insertions, as one list each.
\<close>

definition lib_items :: "metadata \<Rightarrow> string list" where
  "lib_items m =
    [''Build Information\<newline>'', ''-----------------\<newline>'',
     ''Version  : '', version m, ''\<newline>'',
     ''Build    : '', build_type m, '' ('', build_timestamp m, '')\<newline>'',
     ''User     : '', build_user m, '' @ '', build_host m, ''\<newline>\<newline>'',
     ''Platform : '', target_system m, '' '', target_architecture m, ''\<newline>'',
     ''Host     : '', host_system m, ''\<newline>\<newline>'',
     ''Compiler : '', compiler_id m, '' '', compiler_version m, ''\<newline>\<newline>'',
     ''Source   : '', git_describe m, [CHR 0x0A],
     ''Commit   : '', git_commit_hash m, [CHR 0x0A]]"

definition bin_items :: "'a buildinfo_scheme \<Rightarrow> string list" where
  "bin_items m =
    [''Build Information\<newline>-----------------\<newline>Build    : '',
     build_type m, '' ('', build_timestamp m,
     '')\<newline>User     : '',
     build_user m, '' @ '', build_host m,
     ''\<newline>\<newline>Platform : '',
     target_system m, '' '', target_architecture m,
     ''\<newline>Host     : '',
     host_system m,
     ''\<newline>\<newline>Compiler : '',
     compiler_id m, '' '', compiler_version m,
     ''\<newline>\<newline>Source   : '',
     git_describe m, [CHR 0x0A], ''Commit   : '', git_commit_hash m, [CHR 0x0A]]"

section \<open>Build step: the script that generates the build-info header\<close>

text \<open>
  \<^verbatim>\<open>cmake/buildinfo.script.cmake\<close> runs as \<^verbatim>\<open>cmake -P\<close>. Its inputs are the variables passed
  with \<^verbatim>\<open>-D\<close> (a variable that was not passed expands to the empty string), the clock, the
  result of \<^verbatim>\<open>find_package(Git QUIET)\<close>, the existence of the \<^verbatim>\<open>.git\<close> directory, the
  standard output of the two Git commands and the environment variables \<^verbatim>\<open>USER\<close> and
  \<^verbatim>\<open>USERNAME\<close> (\<open>None\<close> when not defined).
\<close>

record cmake_env =
  CMAKE_BUILD_TYPE :: string
  CMAKE_CXX_COMPILER_ID :: string
  CMAKE_CXX_COMPILER_VERSION :: string
  CMAKE_HOST_SYSTEM :: string
  CMAKE_HOST_SYSTEM_NAME :: string
  CMAKE_SYSTEM_NAME :: string
  CMAKE_SYSTEM_PROCESSOR :: string
  TIMESTAMP :: string
  GIT_FOUND :: bool
  dot_git_exists :: bool
  git_rev_parse_stdout :: string
  git_describe_stdout :: string
  ENV_USER :: "string option"
  ENV_USERNAME :: "string option"

text \<open>\<^verbatim>\<open>string(TOUPPER ...)\<close>: the ASCII letters a to z become A to Z.\<close>

definition toupper :: "char \<Rightarrow> char" where
  "toupper c = (let n = (of_char c :: nat) in if 97 \<le> n \<and> n \<le> 122 then char_of (n - 32) else c)"

definition string_TOUPPER :: "string \<Rightarrow> string" where
  "string_TOUPPER s = map toupper s"

text \<open>
  \<^verbatim>\<open>if(NOT <variable>)\<close> holds when the value of the variable is one of CMake's false
  constants: empty, 0, OFF, NO, FALSE, N, IGNORE, NOTFOUND, or ending in -NOTFOUND, in any
  letter case.
\<close>

definition cmake_is_off :: "string \<Rightarrow> bool" where
  "cmake_is_off s =
    (let u = string_TOUPPER s
     in u \<in> set [[], ''0'', ''OFF'', ''NO'', ''FALSE'', ''N'', ''IGNORE'', ''NOTFOUND'']
        \<or> suffix ''-NOTFOUND'' u)"

text \<open>\<^verbatim>\<open>OUTPUT_STRIP_TRAILING_WHITESPACE\<close> removes the white space at the end of the output.\<close>

definition is_space :: "char \<Rightarrow> bool" where
  "is_space c = (c \<in> set [CHR '' '', CHR 0x09, CHR 0x0A, CHR 0x0B, CHR 0x0C, CHR 0x0D])"

definition strip_trailing_whitespace :: "string \<Rightarrow> string" where
  "strip_trailing_whitespace s = rev (dropWhile is_space (rev s))"

text \<open>
  The script (lines 54 to 122), with the values it writes into the \<^verbatim>\<open>#define\<close>s of the
  header (lines 127 to 190): \<^verbatim>\<open>BUILD_TIMESTAMP\<close> is \<open>build_timestamp\<close>, \<^verbatim>\<open>TARGET_SYSTEM\<close> is
  \<open>target_system\<close>, and so on. \<^verbatim>\<open>HOST_SYSTEM\<close> is written from
  \<^verbatim>\<open>${CMAKE_HOST_SYSTEM_NAME}\<close> directly.
\<close>

definition buildinfo_script :: "cmake_env \<Rightarrow> buildinfo" where
  "buildinfo_script e =
    (let timestamp = TIMESTAMP e;
         build_type_upper = string_TOUPPER (CMAKE_BUILD_TYPE e);
         build_type_upper = (if cmake_is_off build_type_upper then ''UNKNOWN'' else build_type_upper);
         compiler_id' = CMAKE_CXX_COMPILER_ID e;
         compiler_version' = CMAKE_CXX_COMPILER_VERSION e;
         system_name = CMAKE_SYSTEM_NAME e;
         system_processor = CMAKE_SYSTEM_PROCESSOR e;
         (git_hash, git_describe') =
           (if GIT_FOUND e \<and> dot_git_exists e
            then (strip_trailing_whitespace (git_rev_parse_stdout e),
                  strip_trailing_whitespace (git_describe_stdout e))
            else (''unknown'', ''no-git''));
         build_user' =
           (case ENV_USER e of
              Some u \<Rightarrow> u
            | None \<Rightarrow> (case ENV_USERNAME e of Some u \<Rightarrow> u | None \<Rightarrow> ''unknown''));
         build_host' = CMAKE_HOST_SYSTEM e
     in \<lparr>build_type = build_type_upper,
         build_timestamp = timestamp,
         build_user = build_user',
         build_host = build_host',
         target_system = system_name,
         target_architecture = system_processor,
         host_system = CMAKE_HOST_SYSTEM_NAME e,
         compiler_id = compiler_id',
         compiler_version = compiler_version',
         git_describe = git_describe',
         git_commit_hash = git_hash\<rparr>)"

text \<open>
  The record of the library: the values of a generated build-info header together with
  \<^verbatim>\<open>project::version\<close>.
\<close>

definition with_version :: "string \<Rightarrow> buildinfo \<Rightarrow> metadata" where
  "with_version v b =
    \<lparr>build_type = build_type b, build_timestamp = build_timestamp b, build_user = build_user b,
     build_host = build_host b, target_system = target_system b,
     target_architecture = target_architecture b, host_system = host_system b,
     compiler_id = compiler_id b, compiler_version = compiler_version b,
     git_describe = git_describe b, git_commit_hash = git_commit_hash b, version = v\<rparr>"

section \<open>Vocabulary of the properties\<close>

text \<open>The characters a call has appended to a stream.\<close>

definition written :: "ostream \<Rightarrow> ostream \<Rightarrow> string" where
  "written before after = drop (length (buf before)) (buf after)"

text \<open>
  The same for a stream with formatting state, and the streams on which an insertion is
  the plain one: the error state is not set, the field width is 0 and the buffer has room
  for \<open>k\<close> more characters.
\<close>

definition appended :: "'a fmt_ostream_scheme \<Rightarrow> 'a fmt_ostream_scheme \<Rightarrow> string" where
  "appended before after = drop (length (buf before)) (buf after)"

definition accepts :: "'a fmt_ostream_scheme \<Rightarrow> nat \<Rightarrow> bool" where
  "accepts os k =
    (\<not> failed os \<and> width os = 0
     \<and> (case capacity os of None \<Rightarrow> True | Some c \<Rightarrow> length (buf os) + k \<le> c))"

text \<open>A text as a list of lines, each ended by a line feed, and back.\<close>

definition unlines :: "string list \<Rightarrow> string" where
  "unlines ls = concat (map (\<lambda>l. l @ [CHR 0x0A]) ls)"

fun split_lines :: "string \<Rightarrow> string \<Rightarrow> string list" where
  "split_lines cur [] = (if cur = [] then [] else [cur])"
| "split_lines cur (c # cs) =
     (if c = CHR 0x0A then cur # split_lines [] cs else split_lines (cur @ [c]) cs)"

definition lines_of :: "string \<Rightarrow> string list" where
  "lines_of s = split_lines [] s"

text \<open>The number of places of a text at which a given string occurs.\<close>

fun count_occ :: "string \<Rightarrow> string \<Rightarrow> nat" where
  "count_occ pat [] = (if pat = [] then 1 else 0)"
| "count_occ pat (c # cs) = (if prefix pat (c # cs) then 1 else 0) + count_occ pat cs"

text \<open>
  The sections of the report in the order of the specification; the version line is there
  for the library (\<open>Some\<close> version) and not for the executable (\<open>None\<close>).
\<close>

definition report_sections :: "string option \<Rightarrow> 'a buildinfo_scheme \<Rightarrow> string list" where
  "report_sections ver m =
    [''Build Information'',
     ''-----------------''] @
    (case ver of None \<Rightarrow> [] | Some v \<Rightarrow> [''Version  : '' @ v]) @
    [''Build    : '' @ build_type m @ '' ('' @ build_timestamp m @ '')'',
     ''User     : '' @ build_user m @ '' @ '' @ build_host m,
     [],
     ''Platform : '' @ target_system m @ '' '' @ target_architecture m,
     ''Host     : '' @ host_system m,
     [],
     ''Compiler : '' @ compiler_id m @ '' '' @ compiler_version m,
     [],
     ''Source   : '' @ git_describe m,
     ''Commit   : '' @ git_commit_hash m]"

text \<open>The eleven build-info values, and whether none is empty or none holds a line feed.\<close>

definition buildinfo_fields :: "'a buildinfo_scheme \<Rightarrow> string list" where
  "buildinfo_fields m =
    [build_type m, build_timestamp m, build_user m, build_host m, target_system m,
     target_architecture m, host_system m, compiler_id m, compiler_version m,
     git_describe m, git_commit_hash m]"

definition all_fields_nonempty :: "'a buildinfo_scheme \<Rightarrow> bool" where
  "all_fields_nonempty m = list_all (\<lambda>f. f \<noteq> []) (buildinfo_fields m)"

definition no_line_feed :: "metadata \<Rightarrow> bool" where
  "no_line_feed m = list_all (\<lambda>f. CHR 0x0A \<notin> set f) (version m # buildinfo_fields m)"

section \<open>Example inputs\<close>

definition cout0 :: ostream where
  "cout0 = \<lparr>buf = [], failed = False\<rparr>"

text \<open>
  Four streams with formatting state: a fresh one, one on which the caller has set
  \<^verbatim>\<open>width(30)\<close>, one over an empty buffer of 240 characters, and that one with ten
  characters already in the buffer.
\<close>

definition fresh_sink :: fmt_ostream where
  "fresh_sink =
    \<lparr>buf = [], failed = False, width = 0, fill = CHR '' '', adjust_left = False, capacity = None\<rparr>"

definition padded_sink :: fmt_ostream where
  "padded_sink = fresh_sink\<lparr>width := 30\<rparr>"

definition bounded_sink :: fmt_ostream where
  "bounded_sink = fresh_sink\<lparr>capacity := Some 240\<rparr>"


definition example_metadata :: metadata where
  "example_metadata =
    \<lparr>build_type = ''RELEASE'',
     build_timestamp = ''2024-01-01 00:00:00 UTC'',
     build_user = ''alice'',
     build_host = ''Linux-6.1.0'',
     target_system = ''Linux'',
     target_architecture = ''x86_64'',
     host_system = ''Linux'',
     compiler_id = ''GNU'',
     compiler_version = ''13.2.0'',
     git_describe = ''no-git'',
     git_commit_hash = ''unknown'',
     version = ''1.0.0''\<rparr>"

text \<open>A build without Git and without a user variable, every CMake variable passed.\<close>

definition example_env :: cmake_env where
  "example_env =
    \<lparr>CMAKE_BUILD_TYPE = ''Release'',
     CMAKE_CXX_COMPILER_ID = ''GNU'',
     CMAKE_CXX_COMPILER_VERSION = ''13.2.0'',
     CMAKE_HOST_SYSTEM = ''Linux-6.1.0'',
     CMAKE_HOST_SYSTEM_NAME = ''Linux'',
     CMAKE_SYSTEM_NAME = ''Linux'',
     CMAKE_SYSTEM_PROCESSOR = ''x86_64'',
     TIMESTAMP = ''2024-01-01 00:00:00 UTC'',
     GIT_FOUND = False,
     dot_git_exists = False,
     git_rev_parse_stdout = [],
     git_describe_stdout = [],
     ENV_USER = None,
     ENV_USERNAME = None\<rparr>"

text \<open>The same build started without \<^verbatim>\<open>-DCMAKE_CXX_COMPILER_ID\<close>.\<close>

definition env_without_compiler_id :: cmake_env where
  "env_without_compiler_id = example_env\<lparr>CMAKE_CXX_COMPILER_ID := []\<rparr>"

section \<open>Properties of the arithmetic utility\<close>

lemma sint_add_cpp_int:
  "sint ((a :: cpp_int) + b) = (sint a + sint b + 2 ^ 31) mod 2 ^ 32 - 2 ^ 31"
  by (simp add: sint_word_ariths signed_take_bit_eq_take_bit_shift take_bit_eq_mod)

text \<open>
  Claim C1. For every pair of 32-bit integers, the signed value of \<open>add left right\<close> is the
  mathematical sum of the signed values, reduced modulo \<open>2 ^ 32\<close> into the signed range
  \<open>- 2 ^ 31 ..< 2 ^ 31\<close>; in particular \<open>add 1 2 = 3\<close> and \<open>add (- 5) 5 = 0\<close>.
\<close>

theorem add_is_wrapping_sum:
  "sint (add left right) = (sint left + sint right + 2 ^ 31) mod 2 ^ 32 - 2 ^ 31
   \<and> - (2 ^ 31) \<le> sint (add left right) \<and> sint (add left right) < 2 ^ 31
   \<and> add 1 2 = 3 \<and> add (- 5) 5 = 0"
proof -
  have "sint (add left right) = (sint left + sint right + 2 ^ 31) mod 2 ^ 32 - 2 ^ 31"
    unfolding add_def by (rule sint_add_cpp_int)
  moreover have "- (2 ^ 31) \<le> sint (add left right)"
    using sint_ge [of "add left right"] by simp
  moreover have "sint (add left right) < 2 ^ 31"
    using sint_lt [of "add left right"] by simp
  moreover have "add 1 2 = 3" by (simp add: add_def)
  moreover have "add (- 5) 5 = 0" by (simp add: add_def)
  ultimately show ?thesis by blast
qed

section \<open>Streams and the text of the reports\<close>

lemma put_good: "\<not> failed os \<Longrightarrow> put s os = os\<lparr>buf := buf os @ s\<rparr>"
  by (simp add: put_def)

lemma put_failed: "failed os \<Longrightarrow> put s os = os"
  by (simp add: put_def)

lemma failed_put: "failed (put s os) = failed os"
  by (simp add: put_def)

lemma fold_put_good:
  "\<not> failed os \<Longrightarrow> fold put ss os = os\<lparr>buf := buf os @ concat ss\<rparr>"
proof (induction ss arbitrary: os)
  case Nil
  then show ?case by simp
next
  case (Cons s ss)
  have "\<not> failed (put s os)" using Cons.prems by (simp add: failed_put)
  then have "fold put ss (put s os) = (put s os)\<lparr>buf := buf (put s os) @ concat ss\<rparr>"
    by (rule Cons.IH)
  then show ?case using Cons.prems by (simp add: put_good)
qed

lemma fold_put_failed: "failed os \<Longrightarrow> fold put ss os = os"
  by (induction ss) (simp_all add: put_failed)

lemma tmp_fold: "tmp_DumpBuildInfo m os = fold put (lib_items m) os"
  unfolding tmp_DumpBuildInfo_def Let_def put_char_def lib_items_def
  by (simp only: fold_simps comp_apply)

lemma bin_fold: "bin_DumpBuildInfo m os = fold put (bin_items m) os"
  unfolding bin_DumpBuildInfo_def put_char_def bin_items_def
  by (simp only: fold_simps comp_apply)

lemma concat_lib_items: "concat (lib_items m) = unlines (report_sections (Some (version m)) m)"
  by (simp add: lib_items_def unlines_def report_sections_def)

lemma concat_bin_items: "concat (bin_items m) = unlines (report_sections None m)"
  by (simp add: bin_items_def unlines_def report_sections_def)

lemma tmp_good:
  "\<not> failed os \<Longrightarrow>
   tmp_DumpBuildInfo m os = os\<lparr>buf := buf os @ unlines (report_sections (Some (version m)) m)\<rparr>"
  by (simp add: tmp_fold fold_put_good concat_lib_items)

lemma bin_good:
  "\<not> failed os \<Longrightarrow>
   bin_DumpBuildInfo m os = os\<lparr>buf := buf os @ unlines (report_sections None m)\<rparr>"
  by (simp add: bin_fold fold_put_good concat_bin_items)

lemma tmp_failed: "failed os \<Longrightarrow> tmp_DumpBuildInfo m os = os"
  by (simp add: tmp_fold fold_put_failed)

lemma bin_failed: "failed os \<Longrightarrow> bin_DumpBuildInfo m os = os"
  by (simp add: bin_fold fold_put_failed)

lemma written_tmp:
  "\<not> failed os \<Longrightarrow>
   written os (tmp_DumpBuildInfo m os) = unlines (report_sections (Some (version m)) m)"
  by (simp add: tmp_good written_def)

lemma written_bin:
  "\<not> failed os \<Longrightarrow> written os (bin_DumpBuildInfo m os) = unlines (report_sections None m)"
  by (simp add: bin_good written_def)

lemma failed_tmp: "failed (tmp_DumpBuildInfo m os) = failed os"
  by (cases "failed os") (simp_all add: tmp_good tmp_failed)

lemma failed_bin: "failed (bin_DumpBuildInfo m os) = failed os"
  by (cases "failed os") (simp_all add: bin_good bin_failed)

lemma split_lines_line:
  "CHR 0x0A \<notin> set l \<Longrightarrow>
   split_lines cur (l @ CHR 0x0A # rest) = (cur @ l) # split_lines [] rest"
  by (induction l arbitrary: cur) auto

lemma lines_of_unlines:
  "list_all (\<lambda>l. CHR 0x0A \<notin> set l) ls \<Longrightarrow> lines_of (unlines ls) = ls"
proof (induction ls)
  case Nil
  then show ?case by (simp add: lines_of_def unlines_def)
next
  case (Cons l ls)
  then have l: "CHR 0x0A \<notin> set l" and ls: "lines_of (unlines ls) = ls" by simp_all
  have "unlines (l # ls) = l @ CHR 0x0A # unlines ls" by (simp add: unlines_def)
  then have "lines_of (unlines (l # ls)) = ([] @ l) # split_lines [] (unlines ls)"
    unfolding lines_of_def using split_lines_line [OF l] by simp
  then show ?case using ls by (simp add: lines_of_def)
qed

lemma sections_no_line_feed:
  "no_line_feed m \<Longrightarrow>
   list_all (\<lambda>l. CHR 0x0A \<notin> set l) (report_sections (Some (version m)) m)"
  by (simp add: no_line_feed_def buildinfo_fields_def report_sections_def)

lemma lines_of_tmp:
  "\<not> failed os \<Longrightarrow> no_line_feed m \<Longrightarrow>
   lines_of (written os (tmp_DumpBuildInfo m os)) = report_sections (Some (version m)) m"
  by (simp add: written_tmp lines_of_unlines sections_no_line_feed)

lemma good_cout0: "\<not> failed cout0"
  by (simp add: cout0_def)

lemma example_no_line_feed: "no_line_feed example_metadata"
  by (simp add: no_line_feed_def buildinfo_fields_def example_metadata_def)

section \<open>The sections of the report\<close>

text \<open>
  Claim C3. For every metadata record, the text that \<^verbatim>\<open>tmp::DumpBuildInfo\<close> appends to a good
  stream is exactly these thirteen lines in this order, each ended by a line feed: the title
  "Build Information", the underline, the version line, the build line (build type, with the
  timestamp in parentheses), the user line (user, "@", host), an empty line, the platform
  line (target system and architecture), the host line, an empty line, the compiler line
  (id and version), an empty line, the source line and the commit line. When no value holds
  a line feed, these are the lines of the output.
\<close>

theorem tmp_DumpBuildInfo_sections:
  "\<not> failed os \<Longrightarrow>
   (let sections =
      [''Build Information'',
       ''-----------------'',
       ''Version  : '' @ version m,
       ''Build    : '' @ build_type m @ '' ('' @ build_timestamp m @ '')'',
       ''User     : '' @ build_user m @ '' @ '' @ build_host m,
       [],
       ''Platform : '' @ target_system m @ '' '' @ target_architecture m,
       ''Host     : '' @ host_system m,
       [],
       ''Compiler : '' @ compiler_id m @ '' '' @ compiler_version m,
       [],
       ''Source   : '' @ git_describe m,
       ''Commit   : '' @ git_commit_hash m]
    in written os (tmp_DumpBuildInfo m os) = unlines sections
       \<and> (no_line_feed m \<longrightarrow> lines_of (written os (tmp_DumpBuildInfo m os)) = sections))"
proof -
  assume good: "\<not> failed os"
  have "written os (tmp_DumpBuildInfo m os) = unlines (report_sections (Some (version m)) m)"
    using good by (rule written_tmp)
  moreover have "no_line_feed m \<longrightarrow>
      lines_of (written os (tmp_DumpBuildInfo m os)) = report_sections (Some (version m)) m"
    using good by (simp add: lines_of_tmp)
  ultimately show ?thesis
    unfolding Let_def by (simp add: report_sections_def)
qed

theorem tmp_DumpBuildInfo_sections_witness:
  "\<not> failed cout0 \<and> no_line_feed example_metadata
   \<and> lines_of (written cout0 (tmp_DumpBuildInfo example_metadata cout0)) =
      [''Build Information'',
       ''-----------------'',
       ''Version  : 1.0.0'',
       ''Build    : RELEASE (2024-01-01 00:00:00 UTC)'',
       ''User     : alice @ Linux-6.1.0'',
       [],
       ''Platform : Linux x86_64'',
       ''Host     : Linux'',
       [],
       ''Compiler : GNU 13.2.0'',
       [],
       ''Source   : no-git'',
       ''Commit   : unknown'']"
proof -
  have good: "\<not> failed cout0" by (simp add: cout0_def)
  have nlf: "no_line_feed example_metadata"
    by (simp add: no_line_feed_def buildinfo_fields_def example_metadata_def)
  note sections = tmp_DumpBuildInfo_sections [OF good, of example_metadata, unfolded Let_def]
  show ?thesis
    using sections [THEN conjunct2] good nlf by (simp add: example_metadata_def)
qed

section \<open>The two reporters\<close>

lemma delete_segment:
  assumes "length h = n" and "xs = h @ v @ r"
  shows "take (length v) (drop n xs) = v" and "take n xs @ drop (n + length v) xs = h @ r"
  using assms by simp_all

lemma tmp_text_split:
  "unlines (report_sections (Some v) m) =
   ''Build Information\<newline>-----------------\<newline>'' @ (''Version  : '' @ v @ ''\<newline>'')
     @ drop 36 (unlines (report_sections None m))"
  by (simp add: unlines_def report_sections_def)

lemma bin_text_split:
  "unlines (report_sections None m) =
   ''Build Information\<newline>-----------------\<newline>'' @ drop 36 (unlines (report_sections None m))"
  by (simp add: unlines_def report_sections_def)

lemma length_report_head: "length ''Build Information\<newline>-----------------\<newline>'' = 36"
  by simp

lemma sections_None_no_line_feed:
  "no_line_feed m \<Longrightarrow> list_all (\<lambda>l. CHR 0x0A \<notin> set l) (report_sections None m)"
  by (simp add: no_line_feed_def buildinfo_fields_def report_sections_def)

lemma sections_delete_version:
  "report_sections (Some v) m ! 2 = ''Version  : '' @ v"
  "take 2 (report_sections (Some v) m) @ drop 3 (report_sections (Some v) m) = report_sections None m"
  by (simp_all add: report_sections_def)

text \<open>
  Claim C4. For every metadata record, the output of the executable's reporter is the output
  of the library's reporter with the version line deleted: the version line stands right
  after the 36 characters of title and underline, and cutting it out of the library's output
  gives the executable's output. When no value holds a line feed, the version line is the
  third line of the library's output, and the other lines are the lines of the executable's
  output.
\<close>

theorem bin_report_deletes_version_line:
  "\<not> failed os \<Longrightarrow>
   (let lib = written os (tmp_DumpBuildInfo m os);
        bin = written os (bin_DumpBuildInfo m os);
        version_line = ''Version  : '' @ version m @ ''\<newline>''
    in take (length version_line) (drop 36 lib) = version_line
       \<and> take 36 lib @ drop (36 + length version_line) lib = bin
       \<and> (no_line_feed m \<longrightarrow>
            lines_of lib ! 2 = ''Version  : '' @ version m
            \<and> take 2 (lines_of lib) @ drop 3 (lines_of lib) = lines_of bin))"
proof -
  assume good: "\<not> failed os"
  define lib where "lib = written os (tmp_DumpBuildInfo m os)"
  define bin where "bin = written os (bin_DumpBuildInfo m os)"
  define head where "head = ''Build Information\<newline>-----------------\<newline>''"
  define vline where "vline = ''Version  : '' @ version m @ ''\<newline>''"
  define rest where "rest = drop 36 (unlines (report_sections None m))"
  have len: "length head = 36" unfolding head_def by (rule length_report_head)
  have lib: "lib = head @ vline @ rest"
    unfolding lib_def head_def vline_def rest_def
    by (rule trans [OF written_tmp [OF good] tmp_text_split])
  have bin: "bin = head @ rest"
    unfolding bin_def head_def rest_def
    by (rule trans [OF written_bin [OF good] bin_text_split])
  have a: "take (length vline) (drop 36 lib) = vline"
    using len lib by (rule delete_segment(1))
  have b: "take 36 lib @ drop (36 + length vline) lib = bin"
    using delete_segment(2) [OF len lib] bin by simp
  have c: "no_line_feed m \<longrightarrow>
            lines_of lib ! 2 = ''Version  : '' @ version m
            \<and> take 2 (lines_of lib) @ drop 3 (lines_of lib) = lines_of bin"
  proof
    assume nlf: "no_line_feed m"
    have "lines_of bin = report_sections None m"
      unfolding bin_def using good nlf
      by (simp add: written_bin lines_of_unlines sections_None_no_line_feed)
    moreover have "lines_of lib = report_sections (Some (version m)) m"
      unfolding lib_def using good nlf by (rule lines_of_tmp)
    ultimately show "lines_of lib ! 2 = ''Version  : '' @ version m
            \<and> take 2 (lines_of lib) @ drop 3 (lines_of lib) = lines_of bin"
      by (simp only: sections_delete_version)
  qed
  show ?thesis
    unfolding Let_def using a b c unfolding lib_def bin_def vline_def by blast
qed

theorem bin_report_deletes_version_line_witness:
  "\<not> failed cout0 \<and> no_line_feed example_metadata
   \<and> take 2 (lines_of (written cout0 (tmp_DumpBuildInfo example_metadata cout0)))
       @ drop 3 (lines_of (written cout0 (tmp_DumpBuildInfo example_metadata cout0)))
       = lines_of (written cout0 (bin_DumpBuildInfo example_metadata cout0))
   \<and> take 36 (written cout0 (tmp_DumpBuildInfo example_metadata cout0))
       @ drop (36 + length (''Version  : '' @ version example_metadata @ ''\<newline>''))
           (written cout0 (tmp_DumpBuildInfo example_metadata cout0))
       = written cout0 (bin_DumpBuildInfo example_metadata cout0)"
  using bin_report_deletes_version_line [OF good_cout0, of example_metadata, unfolded Let_def]
    good_cout0 example_no_line_feed
  by blast

section \<open>Section labels\<close>

text \<open>
  The word "Build" occurs twice in every report, in the title "Build Information" and in
  the label of the build line: on the example record the count is 2.
\<close>

theorem label_occurs_twice_counterexample:
  "count_occ ''Build'' (written cout0 (tmp_DumpBuildInfo example_metadata cout0)) = 2"
  by (simp add: written_tmp good_cout0 unlines_def report_sections_def example_metadata_def)

text \<open>
  Claim C5, as amended. For every metadata record whose values hold no line feed, the report
  written to a good stream has exactly one line that is "Build Information" and, for each
  of the labels Build, User, Platform, Host, Compiler, Source and Commit, exactly one line
  that starts with the label padded to nine columns and followed by ": ".
\<close>

theorem label_lines_once:
  "\<not> failed os \<Longrightarrow> no_line_feed m \<Longrightarrow>
   (let ls = lines_of (written os (tmp_DumpBuildInfo m os))
    in count_list ls ''Build Information'' = 1
       \<and> length (filter (prefix ''Build    : '') ls) = 1
       \<and> length (filter (prefix ''User     : '') ls) = 1
       \<and> length (filter (prefix ''Platform : '') ls) = 1
       \<and> length (filter (prefix ''Host     : '') ls) = 1
       \<and> length (filter (prefix ''Compiler : '') ls) = 1
       \<and> length (filter (prefix ''Source   : '') ls) = 1
       \<and> length (filter (prefix ''Commit   : '') ls) = 1)"
proof -
  assume good: "\<not> failed os" and nlf: "no_line_feed m"
  define ls where "ls = report_sections (Some (version m)) m"
  have lines: "lines_of (written os (tmp_DumpBuildInfo m os)) = ls"
    unfolding ls_def using good nlf by (rule lines_of_tmp)
  have "count_list ls ''Build Information'' = 1"
    by (simp add: ls_def report_sections_def)
  moreover have "length (filter (prefix ''Build    : '') ls) = 1"
    by (simp add: ls_def report_sections_def)
  moreover have "length (filter (prefix ''User     : '') ls) = 1"
    by (simp add: ls_def report_sections_def)
  moreover have "length (filter (prefix ''Platform : '') ls) = 1"
    by (simp add: ls_def report_sections_def)
  moreover have "length (filter (prefix ''Host     : '') ls) = 1"
    by (simp add: ls_def report_sections_def)
  moreover have "length (filter (prefix ''Compiler : '') ls) = 1"
    by (simp add: ls_def report_sections_def)
  moreover have "length (filter (prefix ''Source   : '') ls) = 1"
    by (simp add: ls_def report_sections_def)
  moreover have "length (filter (prefix ''Commit   : '') ls) = 1"
    by (simp add: ls_def report_sections_def)
  ultimately show ?thesis unfolding Let_def lines by blast
qed

theorem label_lines_once_witness:
  "\<not> failed cout0 \<and> no_line_feed example_metadata
   \<and> count_list (lines_of (written cout0 (tmp_DumpBuildInfo example_metadata cout0)))
        ''Build Information'' = 1
   \<and> length (filter (prefix ''Build    : '')
        (lines_of (written cout0 (tmp_DumpBuildInfo example_metadata cout0)))) = 1
   \<and> length (filter (prefix ''Commit   : '')
        (lines_of (written cout0 (tmp_DumpBuildInfo example_metadata cout0)))) = 1"
  using label_lines_once [OF good_cout0 example_no_line_feed, unfolded Let_def]
    good_cout0 example_no_line_feed
  by blast

section \<open>The release scenario\<close>

text \<open>
  Claim C6. If the build type is "RELEASE", the timestamp "2024-01-01 00:00:00 UTC" and
  the commit hash "unknown", then the output of \<^verbatim>\<open>tmp::DumpBuildInfo\<close> on a good stream
  contains "Build    : RELEASE (2024-01-01 00:00:00 UTC)" and "Commit   : unknown".
\<close>

theorem release_scenario_substrings:
  "\<not> failed os \<Longrightarrow> build_type m = ''RELEASE'' \<Longrightarrow>
   build_timestamp m = ''2024-01-01 00:00:00 UTC'' \<Longrightarrow> git_commit_hash m = ''unknown'' \<Longrightarrow>
   sublist ''Build    : RELEASE (2024-01-01 00:00:00 UTC)'' (written os (tmp_DumpBuildInfo m os))
   \<and> sublist ''Commit   : unknown'' (written os (tmp_DumpBuildInfo m os))"
proof -
  assume good: "\<not> failed os" and bt: "build_type m = ''RELEASE''"
    and ts: "build_timestamp m = ''2024-01-01 00:00:00 UTC''"
    and gh: "git_commit_hash m = ''unknown''"
  let ?out = "written os (tmp_DumpBuildInfo m os)"
  have out: "?out = unlines (report_sections (Some (version m)) m)"
    using good by (rule written_tmp)
  have "\<exists>ps ss. ?out = ps @ ''Build    : RELEASE (2024-01-01 00:00:00 UTC)'' @ ss"
  proof (intro exI)
    show "?out = (''Build Information\<newline>-----------------\<newline>Version  : '' @ version m @ ''\<newline>'')
        @ ''Build    : RELEASE (2024-01-01 00:00:00 UTC)''
        @ drop 44 (unlines (drop 3 (report_sections (Some (version m)) m)))"
      unfolding out by (simp add: unlines_def report_sections_def bt ts)
  qed
  then have a: "sublist ''Build    : RELEASE (2024-01-01 00:00:00 UTC)'' ?out"
    unfolding sublist_def .
  have "\<exists>ps ss. ?out = ps @ ''Commit   : unknown'' @ ss"
  proof (intro exI)
    show "?out = unlines (butlast (report_sections (Some (version m)) m))
        @ ''Commit   : unknown'' @ ''\<newline>''"
      unfolding out by (simp add: unlines_def report_sections_def gh)
  qed
  then have b: "sublist ''Commit   : unknown'' ?out"
    unfolding sublist_def .
  show ?thesis using a b ..
qed

theorem release_scenario_substrings_witness:
  "\<not> failed cout0 \<and> build_type example_metadata = ''RELEASE''
   \<and> build_timestamp example_metadata = ''2024-01-01 00:00:00 UTC''
   \<and> git_commit_hash example_metadata = ''unknown''
   \<and> sublist ''Build    : RELEASE (2024-01-01 00:00:00 UTC)''
        (written cout0 (tmp_DumpBuildInfo example_metadata cout0))
   \<and> sublist ''Commit   : unknown'' (written cout0 (tmp_DumpBuildInfo example_metadata cout0))"
proof -
  have bt: "build_type example_metadata = ''RELEASE''"
    and ts: "build_timestamp example_metadata = ''2024-01-01 00:00:00 UTC''"
    and gh: "git_commit_hash example_metadata = ''unknown''"
    by (simp_all add: example_metadata_def)
  show ?thesis
    using release_scenario_substrings [OF good_cout0 bt ts gh] good_cout0 bt ts gh by blast
qed

section \<open>The report is not empty\<close>



section \<open>The program entry point\<close>

text \<open>
  Claim C9. For every argument list, \<^verbatim>\<open>main\<close> returns 0, its result does not depend on the
  arguments, and on a good standard output it prints the build-information report of the
  library, followed by the report of the executable's own reporter.
\<close>

theorem main_prints_reports_and_returns_0:
  "fst (main lib_info bin_info argv cout) = 0
   \<and> main lib_info bin_info argv cout = main lib_info bin_info argv' cout
   \<and> (\<not> failed cout \<longrightarrow>
        written cout (snd (main lib_info bin_info argv cout))
          = unlines (report_sections (Some (version lib_info)) lib_info)
            @ unlines (report_sections None bin_info))"
proof -
  have "\<not> failed cout \<longrightarrow>
        written cout (bin_DumpBuildInfo bin_info (tmp_DumpBuildInfo lib_info cout))
          = unlines (report_sections (Some (version lib_info)) lib_info)
            @ unlines (report_sections None bin_info)"
    by (simp add: tmp_good bin_good written_def)
  then show ?thesis by (simp add: main_def Let_def)
qed

theorem main_prints_reports_and_returns_0_witness:
  "\<not> failed cout0
   \<and> fst (main example_metadata example_metadata [''prog'', ''--flag''] cout0) = 0
   \<and> written cout0 (snd (main example_metadata example_metadata [''prog'', ''--flag''] cout0))
      = unlines (report_sections (Some (version example_metadata)) example_metadata)
        @ unlines (report_sections None example_metadata)"
  using main_prints_reports_and_returns_0
      [of example_metadata example_metadata "[''prog'', ''--flag'']" cout0] good_cout0
  by blast

section \<open>Streams with formatting state\<close>

lemma tmp_fmt_fold: "tmp_DumpBuildInfo_fmt m os = fold put_fmt (lib_items m) os"
  unfolding tmp_DumpBuildInfo_fmt_def Let_def put_char_fmt_def lib_items_def
  by (simp only: fold_simps comp_apply)

lemma bin_fmt_fold: "bin_DumpBuildInfo_fmt m os = fold put_fmt (bin_items m) os"
  unfolding bin_DumpBuildInfo_fmt_def put_char_fmt_def bin_items_def
  by (simp only: fold_simps comp_apply)

lemma put_fmt_accepts:
  assumes "accepts os k" and "length s \<le> k"
  shows "put_fmt s os = os\<lparr>buf := buf os @ s\<rparr>" and "accepts (put_fmt s os) (k - length s)"
proof -
  have good: "\<not> failed os" and w: "width os = 0" using assms(1) by (simp_all add: accepts_def)
  have room: "(case capacity os of None \<Rightarrow> length s | Some c \<Rightarrow> c - length (buf os)) \<ge> length s"
    using assms by (auto simp add: accepts_def split: option.splits)
  have "put_fmt s os = os\<lparr>buf := buf os @ s, failed := False, width := 0\<rparr>"
    using good w room by (cases "capacity os") (simp_all add: put_fmt_def Let_def)
  also have "\<dots> = os\<lparr>buf := buf os @ s\<rparr>"
    using good w by simp
  finally show eq: "put_fmt s os = os\<lparr>buf := buf os @ s\<rparr>" .
  show "accepts (put_fmt s os) (k - length s)"
    unfolding eq using assms by (simp add: accepts_def split: option.splits)
qed

lemma fold_put_fmt_accepts:
  "accepts os k \<Longrightarrow> length (concat ss) \<le> k \<Longrightarrow>
   fold put_fmt ss os = os\<lparr>buf := buf os @ concat ss\<rparr>
   \<and> accepts (fold put_fmt ss os) (k - length (concat ss))"
proof (induction ss arbitrary: os k)
  case Nil
  then show ?case by simp
next
  case (Cons s ss)
  have len: "length s \<le> k" and rest: "length (concat ss) \<le> k - length s"
    using Cons.prems(2) by simp_all
  note step = put_fmt_accepts [OF Cons.prems(1) len]
  have ih: "fold put_fmt ss (put_fmt s os) = (put_fmt s os)\<lparr>buf := buf (put_fmt s os) @ concat ss\<rparr>
      \<and> accepts (fold put_fmt ss (put_fmt s os)) (k - length s - length (concat ss))"
    using step(2) rest by (rule Cons.IH)
  have unfold: "fold put_fmt (s # ss) os = fold put_fmt ss (put_fmt s os)" by simp
  have eq: "fold put_fmt (s # ss) os = os\<lparr>buf := buf os @ concat (s # ss)\<rparr>"
    unfolding unfold using ih [THEN conjunct1] by (simp add: step(1))
  have acc: "accepts (fold put_fmt (s # ss) os) (k - length (concat (s # ss)))"
    unfolding unfold using ih [THEN conjunct2] by (simp add: diff_diff_left)
  show ?case using eq acc ..
qed

lemma fold_put_fmt_failed: "failed os \<Longrightarrow> fold put_fmt ss os = os"
  by (induction ss) (simp_all add: put_fmt_def)



lemma tmp_fmt_accepts:
  assumes "accepts os k"
    and "length (unlines (report_sections (Some (version m)) m)) \<le> k"
  shows "tmp_DumpBuildInfo_fmt m os = os\<lparr>buf := buf os @ unlines (report_sections (Some (version m)) m)\<rparr>"
    and "accepts (tmp_DumpBuildInfo_fmt m os) (k - length (unlines (report_sections (Some (version m)) m)))"
proof -
  have len: "length (concat (lib_items m)) \<le> k" using assms(2) by (simp add: concat_lib_items)
  note fold = fold_put_fmt_accepts [OF assms(1) len]
  show "tmp_DumpBuildInfo_fmt m os = os\<lparr>buf := buf os @ unlines (report_sections (Some (version m)) m)\<rparr>"
    using fold [THEN conjunct1] by (simp add: tmp_fmt_fold concat_lib_items)
  show "accepts (tmp_DumpBuildInfo_fmt m os) (k - length (unlines (report_sections (Some (version m)) m)))"
    using fold [THEN conjunct2] by (simp add: tmp_fmt_fold concat_lib_items)
qed

lemma bin_fmt_accepts:
  assumes "accepts os k"
    and "length (unlines (report_sections None m)) \<le> k"
  shows "bin_DumpBuildInfo_fmt m os = os\<lparr>buf := buf os @ unlines (report_sections None m)\<rparr>"
proof -
  have len: "length (concat (bin_items m)) \<le> k" using assms(2) by (simp add: concat_bin_items)
  show ?thesis
    using fold_put_fmt_accepts [OF assms(1) len, THEN conjunct1]
    by (simp add: bin_fmt_fold concat_bin_items)
qed

lemma appended_tmp_fmt:
  "accepts os (length (unlines (report_sections (Some (version m)) m))) \<Longrightarrow>
   appended os (tmp_DumpBuildInfo_fmt m os) = unlines (report_sections (Some (version m)) m)"
  by (simp add: tmp_fmt_accepts(1) [where k = "length (unlines (report_sections (Some (version m)) m))"]
      appended_def)


lemma funpow_tmp_fmt_accepts:
  "accepts os k \<Longrightarrow> n * length (unlines (report_sections (Some (version m)) m)) \<le> k \<Longrightarrow>
   accepts ((tmp_DumpBuildInfo_fmt m ^^ n) os)
     (k - n * length (unlines (report_sections (Some (version m)) m)))"
proof (induction n)
  case 0
  then show ?case by simp
next
  case (Suc n)
  let ?L = "length (unlines (report_sections (Some (version m)) m))"
  have le: "n * ?L \<le> k" and room: "?L \<le> k - n * ?L" using Suc.prems(2) by simp_all
  have "accepts ((tmp_DumpBuildInfo_fmt m ^^ n) os) (k - n * ?L)"
    using Suc.prems(1) le by (rule Suc.IH)
  then have "accepts (tmp_DumpBuildInfo_fmt m ((tmp_DumpBuildInfo_fmt m ^^ n) os)) (k - n * ?L - ?L)"
    using room by (rule tmp_fmt_accepts(2))
  moreover have "k - n * ?L - ?L = k - Suc n * ?L" by simp
  ultimately show ?case by simp
qed

lemma report_length_example:
  "length (unlines (report_sections (Some (version example_metadata)) example_metadata)) = 232"
  by (simp add: unlines_def report_sections_def example_metadata_def)

text \<open>
  On a stream with field width 0 and no bound on the buffer, the reporters do to the
  characters and to the error state what they do on the plain stream of the first model.
\<close>

lemma accepts_unbounded: "\<not> failed os \<Longrightarrow> width os = 0 \<Longrightarrow> capacity os = None \<Longrightarrow> accepts os k"
  by (simp add: accepts_def)

lemma tmp_fmt_refines_plain:
  assumes "width os = 0" and "capacity os = None"
  shows "buf (tmp_DumpBuildInfo_fmt m os) = buf (tmp_DumpBuildInfo m \<lparr>buf = buf os, failed = failed os\<rparr>)
    \<and> failed (tmp_DumpBuildInfo_fmt m os) = failed os"
proof (cases "failed os")
  case True
  then show ?thesis by (simp add: tmp_fmt_fold fold_put_fmt_failed tmp_failed)
next
  case False
  then have "accepts os (length (unlines (report_sections (Some (version m)) m)))"
    using assms by (rule accepts_unbounded)
  then have "tmp_DumpBuildInfo_fmt m os
      = os\<lparr>buf := buf os @ unlines (report_sections (Some (version m)) m)\<rparr>"
    by (rule tmp_fmt_accepts(1)) simp
  then show ?thesis using False by (simp add: tmp_good)
qed

lemma bin_fmt_refines_plain:
  assumes "width os = 0" and "capacity os = None"
  shows "buf (bin_DumpBuildInfo_fmt b os) = buf (bin_DumpBuildInfo b \<lparr>buf = buf os, failed = failed os\<rparr>)
    \<and> failed (bin_DumpBuildInfo_fmt b os) = failed os"
proof (cases "failed os")
  case True
  then show ?thesis by (simp add: bin_fmt_fold fold_put_fmt_failed bin_failed)
next
  case False
  then have "accepts os (length (unlines (report_sections None b)))"
    using assms by (rule accepts_unbounded)
  then have "bin_DumpBuildInfo_fmt b os = os\<lparr>buf := buf os @ unlines (report_sections None b)\<rparr>"
    by (rule bin_fmt_accepts) simp
  then show ?thesis using False by (simp add: bin_good)
qed

section \<open>Determinism\<close>

text \<open>
  On the fresh stream a call writes 232 characters. On the stream with width 30, which is
  good and as empty as the fresh one, the same record gives 244: the title is padded with
  twelve fill characters. The second call on that stream writes 232 again, so two calls
  on one stream differ too.
\<close>

theorem same_record_different_bytes_counterexample:
  "\<not> failed fresh_sink \<and> \<not> failed padded_sink \<and> buf fresh_sink = buf padded_sink
   \<and> length (appended fresh_sink (tmp_DumpBuildInfo_fmt example_metadata fresh_sink)) = 232
   \<and> length (appended padded_sink (tmp_DumpBuildInfo_fmt example_metadata padded_sink)) = 244
   \<and> length (appended (tmp_DumpBuildInfo_fmt example_metadata padded_sink)
        (tmp_DumpBuildInfo_fmt example_metadata (tmp_DumpBuildInfo_fmt example_metadata padded_sink)))
      = 232"
  by (simp add: tmp_fmt_fold lib_items_def put_fmt_def padded_sink_def fresh_sink_def
      example_metadata_def appended_def Let_def)

text \<open>
  Claim C7, as amended. For a fixed metadata record, any two calls on streams that are good,
  have field width 0 and have room for the report write identical characters, namely the
  report: the call that follows \<open>n\<close> earlier calls on one such stream (with room for
  \<open>n + 1\<close> reports) appends what a single call appends to any other such stream, whatever
  the two streams held before.
\<close>

theorem tmp_DumpBuildInfo_same_bytes:
  "accepts os (Suc n * length (unlines (report_sections (Some (version m)) m))) \<Longrightarrow>
   accepts os' (length (unlines (report_sections (Some (version m)) m))) \<Longrightarrow>
   appended ((tmp_DumpBuildInfo_fmt m ^^ n) os) ((tmp_DumpBuildInfo_fmt m ^^ Suc n) os)
     = appended os' (tmp_DumpBuildInfo_fmt m os')
   \<and> appended os' (tmp_DumpBuildInfo_fmt m os') = unlines (report_sections (Some (version m)) m)"
proof -
  let ?L = "length (unlines (report_sections (Some (version m)) m))"
  assume os: "accepts os (Suc n * ?L)" and os': "accepts os' ?L"
  have "accepts ((tmp_DumpBuildInfo_fmt m ^^ n) os) (Suc n * ?L - n * ?L)"
    using os by (rule funpow_tmp_fmt_accepts) simp
  then have "accepts ((tmp_DumpBuildInfo_fmt m ^^ n) os) ?L" by simp
  then have "appended ((tmp_DumpBuildInfo_fmt m ^^ n) os)
               (tmp_DumpBuildInfo_fmt m ((tmp_DumpBuildInfo_fmt m ^^ n) os))
             = unlines (report_sections (Some (version m)) m)"
    by (rule appended_tmp_fmt)
  moreover have "appended os' (tmp_DumpBuildInfo_fmt m os')
             = unlines (report_sections (Some (version m)) m)"
    using os' by (rule appended_tmp_fmt)
  ultimately show ?thesis by simp
qed

theorem tmp_DumpBuildInfo_same_bytes_witness:
  "accepts (bounded_sink\<lparr>capacity := Some 1000\<rparr>)
     (Suc 2 * length (unlines (report_sections (Some (version example_metadata)) example_metadata)))
   \<and> accepts (fresh_sink\<lparr>buf := ''earlier output''\<rparr>)
       (length (unlines (report_sections (Some (version example_metadata)) example_metadata)))
   \<and> appended ((tmp_DumpBuildInfo_fmt example_metadata ^^ 2) (bounded_sink\<lparr>capacity := Some 1000\<rparr>))
        ((tmp_DumpBuildInfo_fmt example_metadata ^^ Suc 2) (bounded_sink\<lparr>capacity := Some 1000\<rparr>))
      = appended (fresh_sink\<lparr>buf := ''earlier output''\<rparr>)
          (tmp_DumpBuildInfo_fmt example_metadata (fresh_sink\<lparr>buf := ''earlier output''\<rparr>))"
proof -
  have a: "accepts (bounded_sink\<lparr>capacity := Some 1000\<rparr>)
     (Suc 2 * length (unlines (report_sections (Some (version example_metadata)) example_metadata)))"
    by (simp add: report_length_example accepts_def bounded_sink_def fresh_sink_def)
  have b: "accepts (fresh_sink\<lparr>buf := ''earlier output''\<rparr>)
       (length (unlines (report_sections (Some (version example_metadata)) example_metadata)))"
    by (simp add: accepts_def fresh_sink_def)
  show ?thesis
    using tmp_DumpBuildInfo_same_bytes [OF a b] a b by blast
qed

section \<open>Frame: the reporters only append\<close>




section \<open>The fallbacks of the build step\<close>

text \<open>
  Three groups of values have a fallback in the script: the build type, the two Git values
  and the user. The other seven values are copied from the inputs as they are.
\<close>

lemma cmake_is_off_Nil: "cmake_is_off []"
  by (simp add: cmake_is_off_def string_TOUPPER_def)

lemma script_build_type:
  "build_type (buildinfo_script e) =
    (if cmake_is_off (string_TOUPPER (CMAKE_BUILD_TYPE e)) then ''UNKNOWN''
     else string_TOUPPER (CMAKE_BUILD_TYPE e))"
  by (simp add: buildinfo_script_def Let_def split: prod.splits)

lemma script_build_type_fallback:
  "CMAKE_BUILD_TYPE e = [] \<Longrightarrow> build_type (buildinfo_script e) = ''UNKNOWN''"
  using cmake_is_off_Nil by (simp add: script_build_type string_TOUPPER_def)

lemma build_type_nonempty: "build_type (buildinfo_script e) \<noteq> []"
  using cmake_is_off_Nil by (auto simp add: script_build_type)

lemma script_user:
  "build_user (buildinfo_script e) =
    (case ENV_USER e of Some u \<Rightarrow> u
     | None \<Rightarrow> (case ENV_USERNAME e of Some u \<Rightarrow> u | None \<Rightarrow> ''unknown''))"
  by (simp add: buildinfo_script_def Let_def split: prod.splits)

lemma script_user_fallback:
  "ENV_USER e = None \<Longrightarrow> ENV_USERNAME e = None \<Longrightarrow> build_user (buildinfo_script e) = ''unknown''"
  by (simp add: script_user)

lemma script_git:
  "git_commit_hash (buildinfo_script e) =
    (if GIT_FOUND e \<and> dot_git_exists e then strip_trailing_whitespace (git_rev_parse_stdout e)
     else ''unknown'')"
  "git_describe (buildinfo_script e) =
    (if GIT_FOUND e \<and> dot_git_exists e then strip_trailing_whitespace (git_describe_stdout e)
     else ''no-git'')"
  by (simp_all add: buildinfo_script_def Let_def)

lemma script_git_fallback:
  "\<not> (GIT_FOUND e \<and> dot_git_exists e) \<Longrightarrow>
   git_commit_hash (buildinfo_script e) = ''unknown'' \<and> git_describe (buildinfo_script e) = ''no-git''"
  by (auto simp add: script_git)

lemma script_copies:
  "build_timestamp (buildinfo_script e) = TIMESTAMP e"
  "build_host (buildinfo_script e) = CMAKE_HOST_SYSTEM e"
  "target_system (buildinfo_script e) = CMAKE_SYSTEM_NAME e"
  "target_architecture (buildinfo_script e) = CMAKE_SYSTEM_PROCESSOR e"
  "host_system (buildinfo_script e) = CMAKE_HOST_SYSTEM_NAME e"
  "compiler_id (buildinfo_script e) = CMAKE_CXX_COMPILER_ID e"
  "compiler_version (buildinfo_script e) = CMAKE_CXX_COMPILER_VERSION e"
  by (simp_all add: buildinfo_script_def Let_def split: prod.splits)

lemma toupper_Release:
  "string_TOUPPER ''Release'' = ''RELEASE''" "string_TOUPPER ''RELEASE'' = ''RELEASE''"
  by code_simp+

lemma script_without_compiler_id: "buildinfo_script env_without_compiler_id =
    \<lparr>build_type = ''RELEASE'',
     build_timestamp = ''2024-01-01 00:00:00 UTC'',
     build_user = ''unknown'',
     build_host = ''Linux-6.1.0'',
     target_system = ''Linux'',
     target_architecture = ''x86_64'',
     host_system = ''Linux'',
     compiler_id = [],
     compiler_version = ''13.2.0'',
     git_describe = ''no-git'',
     git_commit_hash = ''unknown''\<rparr>"
  by (simp add: buildinfo_script_def env_without_compiler_id_def example_env_def toupper_Release
      cmake_is_off_def suffix_to_prefix)

text \<open>
  Claim C2 says that every value the report prints is there and not empty, a sentinel
  standing in for a value that is not available. The script does not keep it: its header
  lists \<^verbatim>\<open>CMAKE_CXX_COMPILER_ID\<close> among the optional variables for which defaults will be
  used, and the build type, which the same list names, gets "UNKNOWN" when it is not
  passed; the compiler id gets nothing. Started without \<^verbatim>\<open>-DCMAKE_CXX_COMPILER_ID\<close>, the
  script writes an empty \<^verbatim>\<open>COMPILER_ID\<close>, and the report has nothing between "Compiler : "
  and the version.
\<close>

theorem script_without_compiler_id_writes_empty_id:
  "CMAKE_CXX_COMPILER_ID env_without_compiler_id = []
   \<and> compiler_id (buildinfo_script env_without_compiler_id) = []
   \<and> \<not> all_fields_nonempty (buildinfo_script env_without_compiler_id)
   \<and> ''Compiler :  13.2.0'' \<in> set (lines_of (written cout0
        (tmp_DumpBuildInfo (with_version ''1.0.0'' (buildinfo_script env_without_compiler_id)) cout0)))
   \<and> build_type (buildinfo_script (env_without_compiler_id\<lparr>CMAKE_BUILD_TYPE := []\<rparr>)) = ''UNKNOWN''"
proof -
  define m where "m = with_version ''1.0.0'' (buildinfo_script env_without_compiler_id)"
  have i: "CMAKE_CXX_COMPILER_ID env_without_compiler_id = []"
    by (simp add: env_without_compiler_id_def)
  have c: "compiler_id (buildinfo_script env_without_compiler_id) = []"
    by (simp add: script_without_compiler_id)
  have a: "\<not> all_fields_nonempty (buildinfo_script env_without_compiler_id)"
    by (simp add: all_fields_nonempty_def buildinfo_fields_def script_without_compiler_id)
  have "no_line_feed m"
    by (simp add: m_def no_line_feed_def buildinfo_fields_def with_version_def
        script_without_compiler_id)
  then have "lines_of (written cout0 (tmp_DumpBuildInfo m cout0))
      = report_sections (Some (version m)) m"
    using good_cout0 by (simp add: lines_of_tmp)
  moreover have "''Compiler :  13.2.0'' \<in> set (report_sections (Some (version m)) m)"
    by (simp add: m_def report_sections_def with_version_def script_without_compiler_id)
  ultimately have l: "''Compiler :  13.2.0'' \<in> set (lines_of (written cout0
        (tmp_DumpBuildInfo (with_version ''1.0.0'' (buildinfo_script env_without_compiler_id)) cout0)))"
    unfolding m_def by simp
  have b: "build_type (buildinfo_script (env_without_compiler_id\<lparr>CMAKE_BUILD_TYPE := []\<rparr>)) = ''UNKNOWN''"
    by (rule script_build_type_fallback) simp
  show ?thesis using i c a l b by blast
qed

end
